theory Spec2Isabelle
  imports Main
begin

section \<open>The AI gateway service (apps/ai-gateway/main.py)\<close>

text \<open>
  The module builds one FastAPI application object, adds one CORS middleware to it,
  registers three GET path operations with the decorator \<^verbatim>\<open>@app.get\<close> and, when run
  as the main program, hands the application to \<^verbatim>\<open>uvicorn.run\<close>.

  The three handlers are translated from the module. What the module only calls (the
  application constructor, the decorator, the middleware and the router behind
  \<^verbatim>\<open>app\<close>) belongs to FastAPI and Starlette; the second half of the data model below
  writes down the behaviour of those calls that the module relies on.
\<close>

subsection \<open>Values\<close>

text \<open>
  A handler returns a dict literal from strings to strings. Python keeps the insertion
  order of a dict, so the model is an association list; the keys of the three literals
  are pairwise different.
\<close>

type_synonym json_object = "(string \<times> string) list"

definition keys :: "json_object \<Rightarrow> string set" where
  "keys d = set (map fst d)"

definition lookup :: "json_object \<Rightarrow> string \<Rightarrow> string option" where
  "lookup d k = map_of d k"

text \<open>An exception escaping a handler.\<close>

datatype py_exception = PyException string

text \<open>
  A handler is an \<^verbatim>\<open>async def\<close> without parameters. It runs in some program state
  \<open>'s\<close> (module globals, the process environment, the clock), returns the new state and
  either the returned dict or the exception it raised.
\<close>

type_synonym 's handler = "'s \<Rightarrow> (py_exception + json_object) \<times> 's"

subsection \<open>The three handlers\<close>

definition health_check :: "'s handler" where
  "health_check s =
     (Inr [(''status'', ''ok''),
           (''timestamp'', ''2024-01-01T00:00:00Z''),
           (''service'', ''ai-gateway''),
           (''version'', ''1.0.0'')], s)"

definition root :: "'s handler" where
  "root s = (Inr [(''message'', ''AI Gateway Service is running'')], s)"

definition test_hot_reload :: "'s handler" where
  "test_hot_reload s =
     (Inr [(''message'', ''Hot reload is working!''),
           (''timestamp'', ''2024-01-01T00:00:00Z'')], s)"

subsection \<open>Requests and responses\<close>

text \<open>
  A request as the application sees it: the method, the path and the header list (header
  names arrive in lower case). A response is its status code and its content.
\<close>

record request =
  req_method :: string
  req_path :: string
  req_headers :: "(string \<times> string) list"

datatype content = JSONObject json_object | Text string

record response =
  status_code :: nat
  content :: content

subsection \<open>Routes\<close>

text \<open>
  Two kinds of endpoint sit behind a route. A path operation (registered by
  \<^verbatim>\<open>@app.get\<close>) is called without the request, and its return value is sent as JSON
  with the status code given to the decorator, 200 when none is given. A plain route
  (the documentation pages the application constructor adds) gets the request and builds
  its own response.
\<close>

datatype 's endpoint =
    PathOperation "nat option" "'s handler"
  | RequestResponse "request \<Rightarrow> 's \<Rightarrow> (py_exception + response) \<times> 's"

record 's route =
  route_path :: string
  route_methods :: "string list"
  route_endpoint :: "'s endpoint"

record cors_config =
  allow_origins :: "string list"
  allow_credentials :: bool
  allow_methods :: "string list"
  allow_headers :: "string list"

record 's fastapi =
  title :: string
  description :: string
  version :: string
  user_middleware :: "cors_config list"
  routes :: "'s route list"

text \<open>
  The parts of the framework whose results no statement below depends on are taken as
  parameters: the four documentation endpoints of the application constructor, and the
  response the CORS middleware gives to a preflight request.
\<close>

record 's framework =
  openapi :: "request \<Rightarrow> 's \<Rightarrow> (py_exception + response) \<times> 's"
  swagger_ui_html :: "request \<Rightarrow> 's \<Rightarrow> (py_exception + response) \<times> 's"
  swagger_ui_redirect :: "request \<Rightarrow> 's \<Rightarrow> (py_exception + response) \<times> 's"
  redoc_html :: "request \<Rightarrow> 's \<Rightarrow> (py_exception + response) \<times> 's"
  preflight_response :: "cors_config \<Rightarrow> (string \<times> string) list \<Rightarrow> response"

subsection \<open>Building the application\<close>

text \<open>
  \<^verbatim>\<open>FastAPI(title=..., description=..., version=...)\<close>: the module leaves the
  documentation URLs at their defaults, so the constructor registers its four
  documentation routes (GET and HEAD) before any route of the module.
\<close>

definition FastAPI :: "'s framework \<Rightarrow> string \<Rightarrow> string \<Rightarrow> string \<Rightarrow> 's fastapi" where
  "FastAPI fw t d v =
     \<lparr>title = t, description = d, version = v, user_middleware = [],
      routes =
        [\<lparr>route_path = ''/openapi.json'', route_methods = [''GET'', ''HEAD''],
          route_endpoint = RequestResponse (openapi fw)\<rparr>,
         \<lparr>route_path = ''/docs'', route_methods = [''GET'', ''HEAD''],
          route_endpoint = RequestResponse (swagger_ui_html fw)\<rparr>,
         \<lparr>route_path = ''/docs/oauth2-redirect'', route_methods = [''GET'', ''HEAD''],
          route_endpoint = RequestResponse (swagger_ui_redirect fw)\<rparr>,
         \<lparr>route_path = ''/redoc'', route_methods = [''GET'', ''HEAD''],
          route_endpoint = RequestResponse (redoc_html fw)\<rparr>]\<rparr>"

text \<open>\<^verbatim>\<open>app.add_middleware(CORSMiddleware, ...)\<close> puts the middleware in front.\<close>

definition add_middleware :: "cors_config \<Rightarrow> 's fastapi \<Rightarrow> 's fastapi" where
  "add_middleware m a = a\<lparr>user_middleware := m # user_middleware a\<rparr>"

text \<open>
  \<^verbatim>\<open>@app.get(path)\<close> appends a path operation for the method GET only, with no status
  code of its own.
\<close>

definition get :: "string \<Rightarrow> 's handler \<Rightarrow> 's fastapi \<Rightarrow> 's fastapi" where
  "get path h a =
     a\<lparr>routes := routes a @
        [\<lparr>route_path = path, route_methods = [''GET''],
          route_endpoint = PathOperation None h\<rparr>]\<rparr>"

text \<open>The module's statements, in their order.\<close>

definition app :: "'s framework \<Rightarrow> 's fastapi" where
  "app fw =
     get ''/test-hot-reload'' test_hot_reload
       (get ''/'' root
         (get ''/health'' health_check
           (add_middleware
              \<lparr>allow_origins = [''http://localhost:3000'', ''http://localhost:4000''],
               allow_credentials = True,
               allow_methods = [''*''],
               allow_headers = [''*'']\<rparr>
              (FastAPI fw ''AI Gateway Service''
                 ''AI service gateway for pronunciation assistant'' ''1.0.0''))))"

text \<open>
  The last statement of the module: only when the module is the main program
  (\<^verbatim>\<open>__name__ == "__main__"\<close>) the server is started, with these arguments.
\<close>

record uvicorn_run =
  host :: string
  port :: nat

definition main :: "string \<Rightarrow> uvicorn_run option" where
  "main name = (if name = ''__main__'' then Some \<lparr>host = ''0.0.0.0'', port = 8001\<rparr> else None)"

subsection \<open>Serving a request\<close>

text \<open>
  A route's path without parameters is compiled to the regular expression
  \<^verbatim>\<open>^path$\<close>, which Python matches against the request path; \<^verbatim>\<open>$\<close> also matches
  before a final newline.
\<close>

definition path_regex_match :: "string \<Rightarrow> string \<Rightarrow> bool" where
  "path_regex_match p path = (path = p \<or> path = p @ [CHR 0x0A])"

datatype match = NONE | PARTIAL | FULL

definition matches :: "'s route \<Rightarrow> request \<Rightarrow> match" where
  "matches r req =
     (if path_regex_match (route_path r) (req_path req)
      then (if route_methods r \<noteq> [] \<and> req_method req \<notin> set (route_methods r)
            then PARTIAL else FULL)
      else NONE)"

definition internal_server_error :: response where
  "internal_server_error = \<lparr>status_code = 500, content = Text ''Internal Server Error''\<rparr>"

definition http_exception :: "nat \<Rightarrow> string \<Rightarrow> response" where
  "http_exception code detail = \<lparr>status_code = code, content = JSONObject [(''detail'', detail)]\<rparr>"

text \<open>
  Handling a request on a route: a method the route does not have is answered with 405;
  an exception out of the endpoint is answered with 500.
\<close>

definition handle :: "'s route \<Rightarrow> request \<Rightarrow> 's \<Rightarrow> response \<times> 's" where
  "handle r req s =
     (if route_methods r \<noteq> [] \<and> req_method req \<notin> set (route_methods r)
      then (http_exception 405 ''Method Not Allowed'', s)
      else (case route_endpoint r of
              PathOperation code h \<Rightarrow>
                (case h s of
                   (Inr d, s') \<Rightarrow>
                     (\<lparr>status_code = (case code of None \<Rightarrow> 200 | Some c \<Rightarrow> c),
                       content = JSONObject d\<rparr>, s')
                 | (Inl e, s') \<Rightarrow> (internal_server_error, s'))
            | RequestResponse f \<Rightarrow>
                (case f req s of
                   (Inr resp, s') \<Rightarrow> (resp, s')
                 | (Inl e, s') \<Rightarrow> (internal_server_error, s'))))"

text \<open>
  The router's loop over the routes: the first full match wins; otherwise the first
  partial match (same path, other method) is remembered.
\<close>

datatype 's scan = Full "'s route" | Partial "'s route" | NoMatch

fun scan_routes :: "'s route list \<Rightarrow> request \<Rightarrow> 's route option \<Rightarrow> 's scan" where
  "scan_routes [] req partial = (case partial of None \<Rightarrow> NoMatch | Some r \<Rightarrow> Partial r)"
| "scan_routes (r # rs) req partial =
     (case matches r req of
        FULL \<Rightarrow> Full r
      | PARTIAL \<Rightarrow> scan_routes rs req (case partial of None \<Rightarrow> Some r | Some p \<Rightarrow> Some p)
      | NONE \<Rightarrow> scan_routes rs req partial)"

text \<open>Python's \<^verbatim>\<open>rstrip("/")\<close>.\<close>

definition rstrip_slash :: "string \<Rightarrow> string" where
  "rstrip_slash p = rev (dropWhile (\<lambda>c. c = CHR ''/'') (rev p))"

definition redirect_path :: "string \<Rightarrow> string" where
  "redirect_path p = (if p \<noteq> [] \<and> last p = CHR ''/'' then rstrip_slash p else p @ ''/'')"

text \<open>
  The router: a full match is handled, a partial match is handled (which gives 405); when
  no route matches, a path other than \<^verbatim>\<open>/\<close> that matches some route once its trailing
  slash is toggled is redirected (307); everything else is 404.
\<close>

definition router :: "'s route list \<Rightarrow> request \<Rightarrow> 's \<Rightarrow> response \<times> 's" where
  "router rs req s =
     (case scan_routes rs req None of
        Full r \<Rightarrow> handle r req s
      | Partial r \<Rightarrow> handle r req s
      | NoMatch \<Rightarrow>
          (if req_path req \<noteq> ''/'' \<and>
              list_ex (\<lambda>r. matches r (req\<lparr>req_path := redirect_path (req_path req)\<rparr>) \<noteq> NONE) rs
           then (\<lparr>status_code = 307, content = Text []\<rparr>, s)
           else (http_exception 404 ''Not Found'', s)))"

text \<open>
  The CORS middleware: a request without an \<^verbatim>\<open>Origin\<close> header goes on unchanged; a
  preflight request (OPTIONS with \<^verbatim>\<open>Access-Control-Request-Method\<close>) is answered by
  the middleware itself; any other request goes on, and only headers are added to its
  response.
\<close>

definition is_preflight :: "request \<Rightarrow> bool" where
  "is_preflight req =
     (map_of (req_headers req) ''origin'' \<noteq> None \<and>
      req_method req = ''OPTIONS'' \<and>
      map_of (req_headers req) ''access-control-request-method'' \<noteq> None)"

definition cors_middleware ::
  "'s framework \<Rightarrow> cors_config \<Rightarrow> (request \<Rightarrow> 's \<Rightarrow> response \<times> 's) \<Rightarrow>
   request \<Rightarrow> 's \<Rightarrow> response \<times> 's" where
  "cors_middleware fw cfg inner req s =
     (case map_of (req_headers req) ''origin'' of
        None \<Rightarrow> inner req s
      | Some origin \<Rightarrow>
          (if req_method req = ''OPTIONS'' \<and>
              map_of (req_headers req) ''access-control-request-method'' \<noteq> None
           then (preflight_response fw cfg (req_headers req), s)
           else inner req s))"

text \<open>The application called with a request: the middlewares around the router.\<close>

definition call :: "'s framework \<Rightarrow> 's fastapi \<Rightarrow> request \<Rightarrow> 's \<Rightarrow> response \<times> 's" where
  "call fw a = foldr (cors_middleware fw) (user_middleware a) (router (routes a))"

abbreviation GET :: "string \<Rightarrow> (string \<times> string) list \<Rightarrow> request" where
  "GET path hs \<equiv> \<lparr>req_method = ''GET'', req_path = path, req_headers = hs\<rparr>"

text \<open>
  A concrete framework, for evaluating the application on concrete requests: program
  states are of type \<open>unit\<close>, every documentation endpoint answers 200 with an empty
  text, and a preflight request is answered with 200.
\<close>

definition example_framework :: "unit framework" where
  "example_framework =
     \<lparr>openapi = (\<lambda>req s. (Inr \<lparr>status_code = 200, content = Text []\<rparr>, s)),
      swagger_ui_html = (\<lambda>req s. (Inr \<lparr>status_code = 200, content = Text []\<rparr>, s)),
      swagger_ui_redirect = (\<lambda>req s. (Inr \<lparr>status_code = 200, content = Text []\<rparr>, s)),
      redoc_html = (\<lambda>req s. (Inr \<lparr>status_code = 200, content = Text []\<rparr>, s)),
      preflight_response = (\<lambda>cfg hs. \<lparr>status_code = 200, content = Text ''OK''\<rparr>)\<rparr>"


section \<open>Properties\<close>

lemma app_routes:
  "routes (app fw) =
     [\<lparr>route_path = ''/openapi.json'', route_methods = [''GET'', ''HEAD''],
       route_endpoint = RequestResponse (openapi fw)\<rparr>,
      \<lparr>route_path = ''/docs'', route_methods = [''GET'', ''HEAD''],
       route_endpoint = RequestResponse (swagger_ui_html fw)\<rparr>,
      \<lparr>route_path = ''/docs/oauth2-redirect'', route_methods = [''GET'', ''HEAD''],
       route_endpoint = RequestResponse (swagger_ui_redirect fw)\<rparr>,
      \<lparr>route_path = ''/redoc'', route_methods = [''GET'', ''HEAD''],
       route_endpoint = RequestResponse (redoc_html fw)\<rparr>,
      \<lparr>route_path = ''/health'', route_methods = [''GET''],
       route_endpoint = PathOperation None health_check\<rparr>,
      \<lparr>route_path = ''/'', route_methods = [''GET''],
       route_endpoint = PathOperation None root\<rparr>,
      \<lparr>route_path = ''/test-hot-reload'', route_methods = [''GET''],
       route_endpoint = PathOperation None test_hot_reload\<rparr>]"
  by (simp add: app_def get_def add_middleware_def FastAPI_def)

lemma app_user_middleware:
  "user_middleware (app fw) =
     [\<lparr>allow_origins = [''http://localhost:3000'', ''http://localhost:4000''],
       allow_credentials = True, allow_methods = [''*''], allow_headers = [''*'']\<rparr>]"
  by (simp add: app_def get_def add_middleware_def FastAPI_def)

lemma call_app_GET:
  "call fw (app fw) (GET path hs) s = router (routes (app fw)) (GET path hs) s"
  by (simp add: call_def app_user_middleware cors_middleware_def split: option.split)

lemma GET_health:
  "call fw (app fw) (GET ''/health'' hs) s =
     (\<lparr>status_code = 200,
       content = JSONObject [(''status'', ''ok''),
           (''timestamp'', ''2024-01-01T00:00:00Z''),
           (''service'', ''ai-gateway''),
           (''version'', ''1.0.0'')]\<rparr>, s)"
  by (simp add: call_app_GET app_routes router_def matches_def path_regex_match_def
      handle_def health_check_def)

lemma GET_root:
  "call fw (app fw) (GET ''/'' hs) s =
     (\<lparr>status_code = 200,
       content = JSONObject [(''message'', ''AI Gateway Service is running'')]\<rparr>, s)"
  by (simp add: call_app_GET app_routes router_def matches_def path_regex_match_def
      handle_def root_def)

lemma GET_test_hot_reload:
  "call fw (app fw) (GET ''/test-hot-reload'' hs) s =
     (\<lparr>status_code = 200,
       content = JSONObject [(''message'', ''Hot reload is working!''),
           (''timestamp'', ''2024-01-01T00:00:00Z'')]\<rparr>, s)"
  by (simp add: call_app_GET app_routes router_def matches_def path_regex_match_def
      handle_def test_hot_reload_def)

subsection \<open>The health check\<close>

text \<open>
  C1. Every GET /health, whatever its headers and the program state, is answered with
  status 200 and a JSON object whose field \<open>status\<close> is the string \<open>ok\<close>.
\<close>

theorem health_check_200_ok:
  "status_code (fst (call fw (app fw) (GET ''/health'' hs) s)) = 200 \<and>
   (\<exists>d. content (fst (call fw (app fw) (GET ''/health'' hs) s)) = JSONObject d \<and>
        lookup d ''status'' = Some ''ok'')"
  by (simp add: GET_health lookup_def)

theorem health_check_200_ok_witness:
  "status_code (fst (call example_framework (app example_framework)
      (GET ''/health'' [(''accept'', ''*/*'')]) ())) = 200 \<and>
   (\<exists>d. content (fst (call example_framework (app example_framework)
      (GET ''/health'' [(''accept'', ''*/*'')]) ())) = JSONObject d \<and>
        lookup d ''status'' = Some ''ok'')"
  by (rule health_check_200_ok)

text \<open>
  C3. The object returned for GET /health has exactly the four keys \<open>status\<close>,
  \<open>timestamp\<close>, \<open>service\<close> and \<open>version\<close>, each once; it is the dict the handler
  \<open>health_check\<close> returns.
\<close>

theorem health_check_keys:
  "\<exists>d. fst (health_check s) = Inr d \<and>
       content (fst (call fw (app fw) (GET ''/health'' hs) s)) = JSONObject d \<and>
       keys d = {''status'', ''timestamp'', ''service'', ''version''} \<and>
       distinct (map fst d)"
  by (simp add: GET_health health_check_def keys_def)

theorem health_check_keys_witness:
  "\<exists>d. fst (health_check ()) = Inr d \<and>
       content (fst (call example_framework (app example_framework)
         (GET ''/health'' []) ())) = JSONObject d \<and>
       keys d = {''status'', ''timestamp'', ''service'', ''version''} \<and>
       distinct (map fst d)"
  by (rule health_check_keys)

subsection \<open>The hot-reload test endpoint\<close>

text \<open>
  C4. Every GET /test-hot-reload is answered with status 200 and a JSON object whose keys
  are exactly \<open>message\<close> and \<open>timestamp\<close> and whose \<open>message\<close> is the string
  \<open>Hot reload is working!\<close>.
\<close>

theorem test_hot_reload_200:
  "status_code (fst (call fw (app fw) (GET ''/test-hot-reload'' hs) s)) = 200 \<and>
   (\<exists>d. content (fst (call fw (app fw) (GET ''/test-hot-reload'' hs) s)) = JSONObject d \<and>
        keys d = {''message'', ''timestamp''} \<and> distinct (map fst d) \<and>
        lookup d ''message'' = Some ''Hot reload is working!'')"
  by (simp add: GET_test_hot_reload keys_def lookup_def)

theorem test_hot_reload_200_witness:
  "status_code (fst (call example_framework (app example_framework)
      (GET ''/test-hot-reload'' []) ())) = 200 \<and>
   (\<exists>d. content (fst (call example_framework (app example_framework)
      (GET ''/test-hot-reload'' []) ())) = JSONObject d \<and>
        keys d = {''message'', ''timestamp''} \<and> distinct (map fst d) \<and>
        lookup d ''message'' = Some ''Hot reload is working!'')"
  by (rule test_hot_reload_200)

subsection \<open>The root endpoint\<close>

text \<open>
  C5. Every GET / is answered with status 200 and a JSON object whose field \<open>message\<close>
  is a string that is not empty.
\<close>

theorem root_200_message_nonempty:
  "status_code (fst (call fw (app fw) (GET ''/'' hs) s)) = 200 \<and>
   (\<exists>d m. content (fst (call fw (app fw) (GET ''/'' hs) s)) = JSONObject d \<and>
        lookup d ''message'' = Some m \<and> m \<noteq> [])"
  by (simp add: GET_root lookup_def)

theorem root_200_message_nonempty_witness:
  "status_code (fst (call example_framework (app example_framework) (GET ''/'' []) ())) = 200 \<and>
   (\<exists>d m. content (fst (call example_framework (app example_framework) (GET ''/'' []) ()))
          = JSONObject d \<and>
        lookup d ''message'' = Some m \<and> m \<noteq> [])"
  by (rule root_200_message_nonempty)

text \<open>
  C10. The \<open>message\<close> of the object returned for GET / is exactly the string
  \<open>AI Gateway Service is running\<close>, and it is what the handler \<open>root\<close> returns.
\<close>

theorem root_message_exact:
  "\<exists>d. fst (root s) = Inr d \<and>
       content (fst (call fw (app fw) (GET ''/'' hs) s)) = JSONObject d \<and>
       lookup d ''message'' = Some ''AI Gateway Service is running''"
  by (simp add: GET_root root_def lookup_def)

theorem root_message_exact_witness:
  "\<exists>d. fst (root ()) = Inr d \<and>
       content (fst (call example_framework (app example_framework) (GET ''/'' []) ()))
         = JSONObject d \<and>
       lookup d ''message'' = Some ''AI Gateway Service is running''"
  by (rule root_message_exact)

subsection \<open>The handlers have no input, no failure and no effect\<close>

text \<open>
  C6. The path operations registered on the application are exactly \<open>health_check\<close>,
  \<open>root\<close> and \<open>test_hot_reload\<close>. Each of them returns one fixed dict in every program
  state, never an exception, and returns the state it was called in; and the answer of
  the service to the three GET requests does not depend on the request's headers.
\<close>

theorem handlers_pure:
  "concat (map (\<lambda>r. case route_endpoint r of PathOperation c h \<Rightarrow> [h] | RequestResponse f \<Rightarrow> [])
      (routes (app fw))) = [health_check, root, test_hot_reload] \<and>
   (\<exists>d. \<forall>s :: 's. health_check s = (Inr d, s)) \<and>
   (\<exists>d. \<forall>s :: 's. root s = (Inr d, s)) \<and>
   (\<exists>d. \<forall>s :: 's. test_hot_reload s = (Inr d, s)) \<and>
   (\<forall>hs hs' s. call fw (app fw) (GET ''/health'' hs) s = call fw (app fw) (GET ''/health'' hs') s
      \<and> snd (call fw (app fw) (GET ''/health'' hs) s) = s) \<and>
   (\<forall>hs hs' s. call fw (app fw) (GET ''/'' hs) s = call fw (app fw) (GET ''/'' hs') s
      \<and> snd (call fw (app fw) (GET ''/'' hs) s) = s) \<and>
   (\<forall>hs hs' s. call fw (app fw) (GET ''/test-hot-reload'' hs) s =
        call fw (app fw) (GET ''/test-hot-reload'' hs') s
      \<and> snd (call fw (app fw) (GET ''/test-hot-reload'' hs) s) = s)"
  by (simp add: app_routes GET_health GET_root GET_test_hot_reload
      health_check_def root_def test_hot_reload_def)

theorem handlers_pure_witness:
  "concat (map (\<lambda>r. case route_endpoint r of PathOperation c h \<Rightarrow> [h] | RequestResponse f \<Rightarrow> [])
      (routes (app example_framework))) = [health_check, root, test_hot_reload] \<and>
   (\<exists>d. \<forall>s :: unit. health_check s = (Inr d, s)) \<and>
   (\<exists>d. \<forall>s :: unit. root s = (Inr d, s)) \<and>
   (\<exists>d. \<forall>s :: unit. test_hot_reload s = (Inr d, s))"
  using handlers_pure [of example_framework] by blast

subsection \<open>Server and CORS configuration\<close>

text \<open>
  C7. Run as the main program, the module starts the server on host \<open>0.0.0.0\<close> (all
  interfaces) and port 8001.
\<close>

theorem main_listens_on_all_interfaces_8001:
  "\<exists>cfg. main ''__main__'' = Some cfg \<and> host cfg = ''0.0.0.0'' \<and> port cfg = 8001"
  by (simp add: main_def)

theorem main_listens_on_all_interfaces_8001_witness:
  "main ''__main__'' = Some \<lparr>host = ''0.0.0.0'', port = 8001\<rparr>"
  using main_listens_on_all_interfaces_8001 by auto

text \<open>
  C8. The application has one CORS middleware; its list of allowed origins has exactly
  two entries, \<open>http://localhost:3000\<close> and \<open>http://localhost:4000\<close>, both on localhost.
\<close>

theorem cors_allowlist_two_local_origins:
  "\<exists>cfg. user_middleware (app fw) = [cfg] \<and>
     allow_origins cfg = [''http://localhost:3000'', ''http://localhost:4000''] \<and>
     length (allow_origins cfg) = 2 \<and> distinct (allow_origins cfg) \<and>
     list_all (\<lambda>origin. take 17 origin = ''http://localhost:'') (allow_origins cfg)"
  by (simp add: app_user_middleware)

theorem cors_allowlist_two_local_origins_witness:
  "\<exists>cfg. user_middleware (app example_framework) = [cfg] \<and>
     allow_origins cfg = [''http://localhost:3000'', ''http://localhost:4000''] \<and>
     length (allow_origins cfg) = 2 \<and> distinct (allow_origins cfg) \<and>
     list_all (\<lambda>origin. take 17 origin = ''http://localhost:'') (allow_origins cfg)"
  by (rule cors_allowlist_two_local_origins)

subsection \<open>The timestamp is a constant\<close>

text \<open>
  C9. For GET /health and for GET /test-hot-reload the \<open>timestamp\<close> of the returned
  object is the constant string \<open>2024-01-01T00:00:00Z\<close> in every program state, and two
  invocations of the same endpoint, in any two states and with any headers, get equal
  responses.
\<close>

theorem timestamp_constant:
  "(\<exists>d. content (fst (call fw (app fw) (GET ''/health'' hs) s)) = JSONObject d \<and>
        lookup d ''timestamp'' = Some ''2024-01-01T00:00:00Z'') \<and>
   (\<exists>d. content (fst (call fw (app fw) (GET ''/test-hot-reload'' hs) s)) = JSONObject d \<and>
        lookup d ''timestamp'' = Some ''2024-01-01T00:00:00Z'') \<and>
   fst (call fw (app fw) (GET ''/health'' hs) s) =
     fst (call fw (app fw) (GET ''/health'' hs') s') \<and>
   fst (call fw (app fw) (GET ''/test-hot-reload'' hs) s) =
     fst (call fw (app fw) (GET ''/test-hot-reload'' hs') s')"
  by (simp add: GET_health GET_test_hot_reload lookup_def)

theorem timestamp_constant_witness:
  "(\<exists>d. content (fst (call example_framework (app example_framework)
        (GET ''/health'' []) ())) = JSONObject d \<and>
        lookup d ''timestamp'' = Some ''2024-01-01T00:00:00Z'') \<and>
   (\<exists>d. content (fst (call example_framework (app example_framework)
        (GET ''/test-hot-reload'' []) ())) = JSONObject d \<and>
        lookup d ''timestamp'' = Some ''2024-01-01T00:00:00Z'') \<and>
   fst (call example_framework (app example_framework) (GET ''/health'' []) ()) =
     fst (call example_framework (app example_framework)
        (GET ''/health'' [(''origin'', ''http://localhost:3000'')]) ()) \<and>
   fst (call example_framework (app example_framework) (GET ''/test-hot-reload'' []) ()) =
     fst (call example_framework (app example_framework)
        (GET ''/test-hot-reload'' [(''origin'', ''http://localhost:3000'')]) ())"
  by (rule timestamp_constant)

subsection \<open>Requests that no route answers\<close>

lemma app_route_paths:
  "map route_path (routes (app fw)) =
     [''/openapi.json'', ''/docs'', ''/docs/oauth2-redirect'', ''/redoc'',
      ''/health'', ''/'', ''/test-hot-reload'']"
  by (simp add: app_routes)

lemma matches_NONE_iff:
  "matches r req = NONE \<longleftrightarrow> \<not> path_regex_match (route_path r) (req_path req)"
  by (simp add: matches_def)

lemma scan_routes_no_match:
  "\<forall>r\<in>set rs. matches r req = NONE \<Longrightarrow>
   scan_routes rs req partial = (case partial of None \<Rightarrow> NoMatch | Some r \<Rightarrow> Partial r)"
  by (induction rs arbitrary: partial) simp_all

lemma router_not_found:
  assumes "\<forall>r\<in>set rs. \<not> path_regex_match (route_path r) (req_path req)"
    and "\<forall>r\<in>set rs. \<not> path_regex_match (route_path r) (redirect_path (req_path req))"
  shows "router rs req s = (http_exception 404 ''Not Found'', s)"
proof -
  from assms(1) have "\<forall>r\<in>set rs. matches r req = NONE"
    by (simp add: matches_NONE_iff)
  then have scan: "scan_routes rs req None = NoMatch"
    by (simp add: scan_routes_no_match)
  from assms(2) have
    "\<not> list_ex (\<lambda>r. matches r (req\<lparr>req_path := redirect_path (req_path req)\<rparr>) \<noteq> NONE) rs"
    by (simp add: list_ex_iff matches_NONE_iff)
  with scan show ?thesis
    by (simp add: router_def)
qed

lemma call_app_not_preflight:
  "\<not> is_preflight req \<Longrightarrow> call fw (app fw) req s = router (routes (app fw)) req s"
  by (auto simp: call_def app_user_middleware cors_middleware_def is_preflight_def
      split: option.split)

lemma call_app_preflight:
  "is_preflight req \<Longrightarrow>
   call fw (app fw) req s =
     (preflight_response fw (hd (user_middleware (app fw))) (req_headers req), s)"
  by (auto simp: call_def app_user_middleware cors_middleware_def is_preflight_def
      split: option.split)

text \<open>
  A request for one of the three paths of the module with a method other than GET is a
  partial match: the answer is 405.
\<close>

lemma defined_path_other_method_405:
  assumes "\<not> is_preflight req"
    and "req_path req \<in> {''/health'', ''/'', ''/test-hot-reload''}"
    and "req_method req \<noteq> ''GET''"
  shows "call fw (app fw) req s = (http_exception 405 ''Method Not Allowed'', s)"
proof -
  from assms(2) consider "req_path req = ''/health''" | "req_path req = ''/''"
    | "req_path req = ''/test-hot-reload''"
    by auto
  then have "router (routes (app fw)) req s = (http_exception 405 ''Method Not Allowed'', s)"
  proof cases
    case 1
    with assms(3) show ?thesis
      by (simp add: app_routes router_def matches_def path_regex_match_def handle_def)
  next
    case 2
    with assms(3) show ?thesis
      by (simp add: app_routes router_def matches_def path_regex_match_def handle_def)
  next
    case 3
    with assms(3) show ?thesis
      by (simp add: app_routes router_def matches_def path_regex_match_def handle_def)
  qed
  with assms(1) show ?thesis
    by (simp add: call_app_not_preflight)
qed

text \<open>A path that differs from a route's path by its trailing slash is redirected.\<close>

lemma GET_health_slash_307:
  "status_code (fst (call fw (app fw) (GET ''/health/'' []) s)) = 307"
  by (simp add: call_app_GET app_routes router_def matches_def path_regex_match_def
      redirect_path_def rstrip_slash_def)

text \<open>
  Several slashes at the end are removed together, and a path that is a route's path
  followed by a newline still matches that route.
\<close>

lemma GET_health_slashes_307:
  "status_code (fst (call fw (app fw) (GET ''/health//'' []) s)) = 307"
  by (simp add: call_app_GET app_routes router_def matches_def path_regex_match_def
      redirect_path_def rstrip_slash_def)

lemma POST_health_newline_405:
  "status_code (fst (call fw (app fw)
      \<lparr>req_method = ''POST'', req_path = ''/health'' @ [CHR 0x0A], req_headers = []\<rparr> s)) = 405"
  by (simp add: call_app_not_preflight is_preflight_def app_routes router_def matches_def
      path_regex_match_def handle_def http_exception_def)

text \<open>
  C2, amended. Take a request that is not a CORS preflight, that is, not an OPTIONS
  request carrying both an \<open>origin\<close> and an \<open>access-control-request-method\<close> header.
  Let \<open>q\<close> be its path with all trailing slashes removed when the path ends in a slash,
  and its path with one slash appended otherwise. If neither the path nor \<open>q\<close> is one
  of the seven route paths of the application (\<open>/openapi.json\<close>, \<open>/docs\<close>,
  \<open>/docs/oauth2-redirect\<close>, \<open>/redoc\<close>, \<open>/health\<close>, \<open>/\<close>, \<open>/test-hot-reload\<close>) or one
  of these followed by a single newline character, the request is answered with 404 and
  the program state is unchanged. POST /tts, POST /stt and POST /llm are such requests.
\<close>

theorem unknown_path_404:
  assumes "\<not> (req_method req = ''OPTIONS'' \<and>
              map_of (req_headers req) ''origin'' \<noteq> None \<and>
              map_of (req_headers req) ''access-control-request-method'' \<noteq> None)"
    and "q = (if req_path req \<noteq> [] \<and> last (req_path req) = CHR ''/''
              then rev (dropWhile (\<lambda>c. c = CHR ''/'') (rev (req_path req)))
              else req_path req @ ''/'')"
    and "\<forall>r\<in>set [''/openapi.json'', ''/docs'', ''/docs/oauth2-redirect'', ''/redoc'',
                   ''/health'', ''/'', ''/test-hot-reload''].
           req_path req \<noteq> r \<and> req_path req \<noteq> r @ [CHR 0x0A] \<and>
           q \<noteq> r \<and> q \<noteq> r @ [CHR 0x0A]"
  shows "status_code (fst (call fw (app fw) req s)) = 404 \<and> snd (call fw (app fw) req s) = s"
proof -
  from assms(1) have np: "\<not> is_preflight req"
    by (auto simp: is_preflight_def)
  from assms(2) have q: "q = redirect_path (req_path req)"
    by (simp add: redirect_path_def rstrip_slash_def)
  have paths: "set (map route_path (routes (app fw))) =
      set [''/openapi.json'', ''/docs'', ''/docs/oauth2-redirect'', ''/redoc'',
           ''/health'', ''/'', ''/test-hot-reload'']"
    by (simp only: app_route_paths)
  from assms(3) have
    "\<forall>p\<in>set (map route_path (routes (app fw))).
       \<not> path_regex_match p (req_path req) \<and>
       \<not> path_regex_match p (redirect_path (req_path req))"
    unfolding paths path_regex_match_def q by blast
  then have
    "\<forall>r\<in>set (routes (app fw)). \<not> path_regex_match (route_path r) (req_path req)"
    "\<forall>r\<in>set (routes (app fw)).
       \<not> path_regex_match (route_path r) (redirect_path (req_path req))"
    by simp_all
  then have "router (routes (app fw)) req s = (http_exception 404 ''Not Found'', s)"
    by (rule router_not_found)
  with np show ?thesis
    by (simp add: call_app_not_preflight http_exception_def)
qed

theorem unknown_path_404_witness:
  "status_code (fst (call example_framework (app example_framework)
      \<lparr>req_method = ''POST'', req_path = ''/tts'', req_headers = []\<rparr> ())) = 404 \<and>
   status_code (fst (call example_framework (app example_framework)
      \<lparr>req_method = ''POST'', req_path = ''/stt'', req_headers = []\<rparr> ())) = 404 \<and>
   status_code (fst (call example_framework (app example_framework)
      \<lparr>req_method = ''POST'', req_path = ''/llm'', req_headers = []\<rparr> ())) = 404 \<and>
   status_code (fst (call example_framework (app example_framework)
      \<lparr>req_method = ''OPTIONS'', req_path = ''/tts/'',
        req_headers = [(''origin'', ''http://localhost:3000'')]\<rparr> ())) = 404"
  using
    unknown_path_404 [of "\<lparr>req_method = ''POST'', req_path = ''/tts'', req_headers = []\<rparr>"
      "''/tts/''" example_framework "()"]
    unknown_path_404 [of "\<lparr>req_method = ''POST'', req_path = ''/stt'', req_headers = []\<rparr>"
      "''/stt/''" example_framework "()"]
    unknown_path_404 [of "\<lparr>req_method = ''POST'', req_path = ''/llm'', req_headers = []\<rparr>"
      "''/llm/''" example_framework "()"]
    unknown_path_404 [of "\<lparr>req_method = ''OPTIONS'', req_path = ''/tts/'',
        req_headers = [(''origin'', ''http://localhost:3000'')]\<rparr>"
      "''/tts''" example_framework "()"]
  by simp

text \<open>
  Without the condition on the path the statement fails: POST /health is none of the three
  method-and-path pairs that the module defines, and it is answered with 405, not 404.
\<close>

theorem undefined_pair_not_404_counterexample:
  "(''POST'', ''/health'') \<notin>
     {(''GET'', ''/health''), (''GET'', ''/''), (''GET'', ''/test-hot-reload'')} \<and>
   status_code (fst (call example_framework (app example_framework)
      \<lparr>req_method = ''POST'', req_path = ''/health'', req_headers = []\<rparr> ())) = 405 \<and>
   status_code (fst (call example_framework (app example_framework)
      \<lparr>req_method = ''POST'', req_path = ''/health'', req_headers = []\<rparr> ())) \<noteq> 404"
  by (simp add: call_app_not_preflight is_preflight_def app_routes router_def matches_def
      path_regex_match_def handle_def http_exception_def)

end
